theory Spec2Isabelle
  imports Main
begin

section \<open>Data model\<close>

text \<open>
  The provider of \<^verbatim>\<open>src/context/AuthContext.tsx\<close> holds four pieces of React state and
  talks to a hosted backend through three calls. The backend is not part of the program:
  it is a parameter of the model, a record giving the outcome of each call. An awaited
  call either rejects (a thrown value, \<open>Inl\<close>) or resolves to a response (\<open>Inr\<close>).

  A thrown value is an error object whose \<^verbatim>\<open>message\<close> property may be absent or empty;
  that is all the code ever reads of it. (A thrown \<^verbatim>\<open>null\<close> or \<^verbatim>\<open>undefined\<close>, on which
  reading \<^verbatim>\<open>message\<close> would itself throw, is not a value of this type: the backend
  client throws error objects.) The error member of a response is \<^verbatim>\<open>null\<close> or an object with a
  string \<^verbatim>\<open>message\<close>: it is modelled by the message, \<open>None\<close> for \<^verbatim>\<open>null\<close>, so that
  \<open>Some ''''\<close> is still an error object (truthy in the source's \<^verbatim>\<open>if (error)\<close>).
\<close>

datatype thrown = Thrown (message: "string option")

text \<open>
  \<^verbatim>\<open>User\<close> is \<^verbatim>\<open>{ id, email, role, fullName }\<close>; the field \<^verbatim>\<open>id\<close> is called \<open>uid\<close> here.
  The email of the backend's user is optional, and the source's \<^verbatim>\<open>session.user.email!\<close>
  is erased at run time, so the field keeps the option.
\<close>

record user =
  uid :: string
  email :: "string option"
  role :: string
  fullName :: string

record auth_user =
  auth_id :: string
  auth_email :: "string option"

record session =
  session_user :: auth_user
  access_token :: string

record profile =
  profile_role :: string
  full_name :: string

record signin_response =
  data_session :: "session option"
  signin_error :: "string option"

record query_response =
  data_profile :: "profile option"
  query_error :: "string option"

record signout_response =
  signout_error :: "string option"

record backend =
  signInWithPassword :: "string \<Rightarrow> string \<Rightarrow> thrown + signin_response"
  profiles_single :: "string \<Rightarrow> thrown + query_response"
  signOut :: "thrown + signout_response"

record auth_state =
  currentUser :: "user option"
  session :: "session option"
  isInitializing :: bool
  isAuthenticating :: bool

text \<open>
  Everything a function of the provider does besides returning is an effect: a call of one
  of the four state setters, a call of the backend, or a line on the console. A function
  returns its result together with the effects it performed, in order.
\<close>

datatype effect =
    SetCurrentUser "user option"
  | SetSession "session option"
  | SetIsInitializing bool
  | SetIsAuthenticating bool
  | CallSignIn string string
  | CallProfileQuery string
  | CallSignOut
  | ConsoleError string string

fun apply_effect :: "effect \<Rightarrow> auth_state \<Rightarrow> auth_state" where
  "apply_effect (SetCurrentUser u) st = st\<lparr>currentUser := u\<rparr>"
| "apply_effect (SetSession s) st = st\<lparr>session := s\<rparr>"
| "apply_effect (SetIsInitializing b) st = st\<lparr>isInitializing := b\<rparr>"
| "apply_effect (SetIsAuthenticating b) st = st\<lparr>isAuthenticating := b\<rparr>"
| "apply_effect (CallSignIn e p) st = st"
| "apply_effect (CallProfileQuery i) st = st"
| "apply_effect CallSignOut st = st"
| "apply_effect (ConsoleError a b) st = st"

definition run_effects :: "effect list \<Rightarrow> auth_state \<Rightarrow> auth_state" where
  "run_effects fx st = fold apply_effect fx st"

fun is_state_update :: "effect \<Rightarrow> bool" where
  "is_state_update (SetCurrentUser u) = True"
| "is_state_update (SetSession s) = True"
| "is_state_update (SetIsInitializing b) = True"
| "is_state_update (SetIsAuthenticating b) = True"
| "is_state_update (CallSignIn e p) = False"
| "is_state_update (CallProfileQuery i) = False"
| "is_state_update CallSignOut = False"
| "is_state_update (ConsoleError a b) = False"

fun is_identity_update :: "effect \<Rightarrow> bool" where
  "is_identity_update (SetCurrentUser u) = True"
| "is_identity_update (SetSession s) = True"
| "is_identity_update (SetIsInitializing b) = False"
| "is_identity_update (SetIsAuthenticating b) = False"
| "is_identity_update (CallSignIn e p) = False"
| "is_identity_update (CallProfileQuery i) = False"
| "is_identity_update CallSignOut = False"
| "is_identity_update (ConsoleError a b) = False"

fun is_authenticating_update :: "effect \<Rightarrow> bool" where
  "is_authenticating_update (SetCurrentUser u) = False"
| "is_authenticating_update (SetSession s) = False"
| "is_authenticating_update (SetIsInitializing b) = False"
| "is_authenticating_update (SetIsAuthenticating b) = True"
| "is_authenticating_update (CallSignIn e p) = False"
| "is_authenticating_update (CallProfileQuery i) = False"
| "is_authenticating_update CallSignOut = False"
| "is_authenticating_update (ConsoleError a b) = False"

fun is_profile_query :: "effect \<Rightarrow> bool" where
  "is_profile_query (SetCurrentUser u) = False"
| "is_profile_query (SetSession s) = False"
| "is_profile_query (SetIsInitializing b) = False"
| "is_profile_query (SetIsAuthenticating b) = False"
| "is_profile_query (CallSignIn e p) = False"
| "is_profile_query (CallProfileQuery i) = True"
| "is_profile_query CallSignOut = False"
| "is_profile_query (ConsoleError a b) = False"

text \<open>The provider's initial state: the four \<^verbatim>\<open>useState\<close> calls.\<close>

definition initial_state :: auth_state where
  "initial_state =
     \<lparr>currentUser = None, session = None, isInitializing = False, isAuthenticating = False\<rparr>"

section \<open>The provider's operations\<close>

text \<open>
  \<^verbatim>\<open>fetchUserProfile\<close>: one query for the row of the session's user; it throws the query's
  error after logging it, returns the assembled user when there is a row, and throws a new
  error otherwise. A rejection of the awaited query propagates as it is.
\<close>

definition fetchUserProfile :: "backend \<Rightarrow> session \<Rightarrow> (thrown + user) \<times> effect list" where
  "fetchUserProfile b s =
     (let i = auth_id (session_user s) in
      case profiles_single b i of
        Inl e \<Rightarrow> (Inl e, [CallProfileQuery i])
      | Inr r \<Rightarrow>
          (case query_error r of
             Some m \<Rightarrow>
               (Inl (Thrown (Some m)),
                [CallProfileQuery i, ConsoleError ''Error fetching user profile:'' m])
           | None \<Rightarrow>
               (case data_profile r of
                  Some p \<Rightarrow>
                    (Inr \<lparr>uid = auth_id (session_user s),
                          email = auth_email (session_user s),
                          role = profile_role p,
                          fullName = full_name p\<rparr>,
                     [CallProfileQuery i])
                | None \<Rightarrow>
                    (Inl (Thrown (Some ''User is authenticated but a profile is missing.'')),
                     [CallProfileQuery i]))))"

definition profile_failure_message :: string where
  "profile_failure_message =
     ''Login successful, but failed to retrieve user profile. Please contact support.''"

definition unknown_error_message :: string where
  "unknown_error_message = ''An unknown error occurred during login.''"

definition network_error_message :: string where
  "network_error_message = ''An unexpected network error occurred.''"

text \<open>
  The body of \<^verbatim>\<open>login\<close>'s outer \<^verbatim>\<open>try\<close> block. It returns the \<^verbatim>\<open>error\<close> member of
  the object the block returns (\<open>Inr\<close>), or the value that escapes the block (\<open>Inl\<close>). The
  inner \<^verbatim>\<open>catch\<close> handles whatever \<open>fetchUserProfile\<close> throws; the sign-out it awaits is
  outside the inner \<^verbatim>\<open>try\<close>, so its rejection escapes.
\<close>

definition login_try ::
  "backend \<Rightarrow> string \<Rightarrow> string \<Rightarrow> (thrown + string option) \<times> effect list" where
  "login_try b em pw =
     (case signInWithPassword b em pw of
        Inl e \<Rightarrow> (Inl e, [CallSignIn em pw])
      | Inr r \<Rightarrow>
          (case signin_error r of
             Some m \<Rightarrow> (Inr (Some m), [CallSignIn em pw])
           | None \<Rightarrow>
               (case data_session r of
                  Some s \<Rightarrow>
                    (case fetchUserProfile b s of
                       (Inr userProfile, fx) \<Rightarrow>
                         (Inr None,
                          CallSignIn em pw # fx @ [SetCurrentUser (Some userProfile),
                                                   SetSession (Some s)])
                     | (Inl profileError, fx) \<Rightarrow>
                         (case signOut b of
                            Inl e \<Rightarrow> (Inl e, CallSignIn em pw # fx @ [CallSignOut])
                          | Inr x \<Rightarrow>
                              (Inr (Some profile_failure_message),
                               CallSignIn em pw # fx @ [CallSignOut])))
                | None \<Rightarrow> (Inr (Some unknown_error_message), [CallSignIn em pw]))))"

text \<open>
  The outer \<^verbatim>\<open>catch\<close>: \<^verbatim>\<open>e.message || "An unexpected network error occurred."\<close>. An absent
  or empty message is falsy.
\<close>

definition catch_message :: "thrown \<Rightarrow> string" where
  "catch_message e =
     (case message e of
        Some m \<Rightarrow> (if m \<noteq> [] then m else network_error_message)
      | None \<Rightarrow> network_error_message)"

record login_result =
  error :: "string option"

text \<open>
  \<^verbatim>\<open>login\<close>: the setter call before the \<^verbatim>\<open>try\<close>, the block, the outer \<^verbatim>\<open>catch\<close>, and the
  \<^verbatim>\<open>finally\<close> clause, which runs on every way out of the block.
\<close>

definition login :: "backend \<Rightarrow> string \<Rightarrow> string \<Rightarrow> login_result \<times> effect list" where
  "login b em pw =
     (case login_try b em pw of
        (Inr err, fx) \<Rightarrow>
          (\<lparr>error = err\<rparr>, SetIsAuthenticating True # fx @ [SetIsAuthenticating False])
      | (Inl e, fx) \<Rightarrow>
          (\<lparr>error = Some (catch_message e)\<rparr>,
           SetIsAuthenticating True # fx @ [SetIsAuthenticating False]))"

text \<open>
  \<^verbatim>\<open>logout\<close>: one awaited sign-out, outside any \<^verbatim>\<open>try\<close>; a returned error is logged. The
  promise resolves (\<open>Inr ()\<close>) or rejects with what the sign-out threw (\<open>Inl\<close>).
\<close>

definition logout :: "backend \<Rightarrow> (thrown + unit) \<times> effect list" where
  "logout b =
     (case signOut b of
        Inl e \<Rightarrow> (Inl e, [CallSignOut])
      | Inr r \<Rightarrow>
          (case signout_error r of
             Some m \<Rightarrow> (Inr (), [CallSignOut, ConsoleError ''Error logging out:'' m])
           | None \<Rightarrow> (Inr (), [CallSignOut])))"

text \<open>
  The callback given to \<^verbatim>\<open>onAuthStateChange\<close>: the event is a string, compared with
  \<^verbatim>\<open>'SIGNED_OUT'\<close>; the session argument is not used.
\<close>

definition onAuthStateChange :: "string \<Rightarrow> session option \<Rightarrow> effect list" where
  "onAuthStateChange event s' =
     (if event = ''SIGNED_OUT'' then [SetCurrentUser None, SetSession None] else [])"

text \<open>
  What can happen to a mounted provider: a call of \<open>login\<close> or of \<open>logout\<close>, each against
  some behaviour of the backend, or a notification. A step applies the state updates of
  one of them.
\<close>

datatype action =
    Login backend string string
  | Logout backend
  | Notify string "session option"

fun effects_of :: "action \<Rightarrow> effect list" where
  "effects_of (Login b em pw) = snd (login b em pw)"
| "effects_of (Logout b) = snd (logout b)"
| "effects_of (Notify event s') = onAuthStateChange event s'"

definition step :: "action \<Rightarrow> auth_state \<Rightarrow> auth_state" where
  "step a st = run_effects (effects_of a) st"

definition run_actions :: "action list \<Rightarrow> auth_state" where
  "run_actions as = fold step as initial_state"

text \<open>
  \<^verbatim>\<open>useRequests\<close> of \<^verbatim>\<open>src/hooks/useRequests.ts\<close>: the argument is what \<^verbatim>\<open>useContext\<close>
  read, \<open>None\<close> for \<^verbatim>\<open>undefined\<close> (the comparison is strict, so every other value,
  \<^verbatim>\<open>null\<close> included, is returned).
\<close>

definition useRequests :: "'c option \<Rightarrow> thrown + 'c" where
  "useRequests context =
     (case context of
        None \<Rightarrow> Inl (Thrown (Some ''useRequests must be used within a RequestProvider''))
      | Some c \<Rightarrow> Inr c)"

section \<open>Auxiliary predicates and sample backends\<close>

text \<open>
  The profile lookup of \<open>fetchUserProfile\<close> fails when the query rejects, when it returns
  an error, or when it returns no row.
\<close>

definition profile_lookup_fails :: "backend \<Rightarrow> session \<Rightarrow> bool" where
  "profile_lookup_fails b s =
     (case profiles_single b (auth_id (session_user s)) of
        Inl e \<Rightarrow> True
      | Inr q \<Rightarrow>
          (case query_error q of
             Some m \<Rightarrow> True
           | None \<Rightarrow> (case data_profile q of Some p \<Rightarrow> False | None \<Rightarrow> True)))"

text \<open>\<open>currentUser\<close> and \<open>session\<close> are both null or both non-null.\<close>

definition both_or_neither :: "auth_state \<Rightarrow> bool" where
  "both_or_neither st = ((currentUser st = None) = (session st = None))"

text \<open>
  Sample behaviours of the backend: one that accepts the credentials and has the profile,
  one that rejects the credentials, one whose profile query finds no row, one whose
  sign-out returns an error, and two whose profile query finds no row and whose sign-out
  throws, with and without a message.
\<close>

definition alice_session :: session where
  "alice_session =
     \<lparr>session_user = \<lparr>auth_id = ''u-1'', auth_email = Some ''alice@example.org''\<rparr>,
      access_token = ''tok''\<rparr>"

definition backend_ok :: backend where
  "backend_ok =
     \<lparr>signInWithPassword =
        (\<lambda>em pw. Inr \<lparr>data_session = Some alice_session, signin_error = None\<rparr>),
      profiles_single =
        (\<lambda>i. Inr \<lparr>data_profile = Some \<lparr>profile_role = ''admin'', full_name = ''Alice A''\<rparr>,
                    query_error = None\<rparr>),
      signOut = Inr \<lparr>signout_error = None\<rparr>\<rparr>"

definition backend_rejecting :: backend where
  "backend_rejecting =
     backend_ok\<lparr>signInWithPassword :=
        (\<lambda>em pw. Inr \<lparr>data_session = None, signin_error = Some ''Invalid login credentials''\<rparr>)\<rparr>"

definition backend_no_profile :: backend where
  "backend_no_profile =
     backend_ok\<lparr>profiles_single :=
        (\<lambda>i. Inr \<lparr>data_profile = None, query_error = Some ''No rows returned''\<rparr>)\<rparr>"

definition backend_signout_error :: backend where
  "backend_signout_error =
     backend_ok\<lparr>signOut := Inr \<lparr>signout_error = Some ''Session not found''\<rparr>\<rparr>"

definition backend_signout_throws :: backend where
  "backend_signout_throws =
     backend_no_profile\<lparr>signOut := Inl (Thrown (Some ''Failed to fetch''))\<rparr>"

definition backend_signout_throws_silent :: backend where
  "backend_signout_throws_silent = backend_no_profile\<lparr>signOut := Inl (Thrown None)\<rparr>"

definition alice_logged_in :: auth_state where
  "alice_logged_in =
     \<lparr>currentUser = Some \<lparr>uid = ''u-1'', email = Some ''alice@example.org'',
                            role = ''admin'', fullName = ''Alice A''\<rparr>,
      session = Some alice_session, isInitializing = False, isAuthenticating = False\<rparr>"

section \<open>Effects and state\<close>

lemma run_effects_Nil: "run_effects [] st = st"
  by (simp add: run_effects_def)

lemma run_effects_Cons: "run_effects (x # xs) st = run_effects xs (apply_effect x st)"
  by (simp add: run_effects_def)

lemma run_effects_append: "run_effects (xs @ ys) st = run_effects ys (run_effects xs st)"
  by (simp add: run_effects_def)

lemma apply_effect_no_update: "\<not> is_state_update x \<Longrightarrow> apply_effect x st = st"
  by (cases x) simp_all

lemma run_effects_no_update: "filter is_state_update fx = [] \<Longrightarrow> run_effects fx st = st"
proof (induction fx arbitrary: st)
  case Nil
  show ?case by (simp add: run_effects_Nil)
next
  case (Cons x fx)
  from Cons.prems have nx: "\<not> is_state_update x" and rest: "filter is_state_update fx = []"
    by (auto split: if_splits)
  show ?case
    by (simp add: run_effects_Cons apply_effect_no_update [OF nx] Cons.IH [OF rest])
qed

lemma run_effects_no_identity_update:
  "filter is_identity_update fx = [] \<Longrightarrow>
     currentUser (run_effects fx st) = currentUser st
     \<and> session (run_effects fx st) = session st"
proof (induction fx arbitrary: st)
  case Nil
  show ?case by (simp add: run_effects_Nil)
next
  case (Cons x fx)
  from Cons.prems have nx: "\<not> is_identity_update x"
    and rest: "filter is_identity_update fx = []"
    by (auto split: if_splits)
  from nx have "currentUser (apply_effect x st) = currentUser st
      \<and> session (apply_effect x st) = session st"
    by (cases x) simp_all
  then show ?case
    by (simp add: run_effects_Cons Cons.IH [OF rest])
qed

lemma fetchUserProfile_effects:
  "filter is_state_update (snd (fetchUserProfile b s)) = []
   \<and> count_list (snd (fetchUserProfile b s)) CallSignOut = 0
   \<and> filter is_authenticating_update (snd (fetchUserProfile b s)) = []"
  by (simp add: fetchUserProfile_def Let_def split: sum.splits option.splits)

lemma fetchUserProfile_no_identity_update:
  "filter is_identity_update (snd (fetchUserProfile b s)) = []"
  by (simp add: fetchUserProfile_def Let_def split: sum.splits option.splits)

lemma fetchUserProfile_no_signOut:
  "count_list (snd (fetchUserProfile b s)) CallSignOut = 0"
  by (simp add: fetchUserProfile_effects)

lemma fetchUserProfile_fails:
  "profile_lookup_fails b s \<Longrightarrow> \<exists>e. fst (fetchUserProfile b s) = Inl e"
  by (auto simp: profile_lookup_fails_def fetchUserProfile_def Let_def
           split: sum.splits option.splits)

lemma fetchUserProfile_succeeds:
  assumes "profiles_single b (auth_id (session_user s)) = Inr q"
    and "query_error q = None" and "data_profile q = Some p"
  shows "fetchUserProfile b s =
           (Inr \<lparr>uid = auth_id (session_user s), email = auth_email (session_user s),
                 role = profile_role p, fullName = full_name p\<rparr>,
            [CallProfileQuery (auth_id (session_user s))])"
  using assms by (simp add: fetchUserProfile_def Let_def)

lemma login_try_success:
  assumes "signInWithPassword b em pw = Inr r" and "signin_error r = None"
    and "data_session r = Some s"
    and "profiles_single b (auth_id (session_user s)) = Inr q"
    and "query_error q = None" and "data_profile q = Some p"
  shows "login_try b em pw =
           (Inr None,
            [CallSignIn em pw, CallProfileQuery (auth_id (session_user s)),
             SetCurrentUser (Some \<lparr>uid = auth_id (session_user s),
                                    email = auth_email (session_user s),
                                    role = profile_role p, fullName = full_name p\<rparr>),
             SetSession (Some s)])"
  using assms by (simp add: login_try_def fetchUserProfile_succeeds)

lemma login_try_profile_failure:
  assumes "signInWithPassword b em pw = Inr r" and "signin_error r = None"
    and "data_session r = Some s" and "profile_lookup_fails b s"
  shows "login_try b em pw =
           (case signOut b of Inl e \<Rightarrow> Inl e | Inr x \<Rightarrow> Inr (Some profile_failure_message),
            CallSignIn em pw # snd (fetchUserProfile b s) @ [CallSignOut])"
proof -
  from fetchUserProfile_fails [OF assms(4)] obtain e fx
    where f: "fetchUserProfile b s = (Inl e, fx)"
    by (cases "fetchUserProfile b s") auto
  show ?thesis
    using assms(1-3) by (simp add: login_try_def f split: sum.splits)
qed

lemma login_effects:
  "snd (login b em pw) = SetIsAuthenticating True # snd (login_try b em pw) @ [SetIsAuthenticating False]"
  by (simp add: login_def split: prod.splits sum.splits)

lemma login_result:
  "fst (login b em pw) =
     \<lparr>error = (case fst (login_try b em pw) of Inr err \<Rightarrow> err | Inl e \<Rightarrow> Some (catch_message e))\<rparr>"
  by (simp add: login_def split: prod.splits sum.splits)

lemma login_try_no_authenticating_update:
  "filter is_authenticating_update (snd (login_try b em pw)) = []"
  using fetchUserProfile_effects [of b]
  by (auto simp: login_try_def split: sum.splits option.splits prod.splits)
    (metis snd_conv)+

lemma login_try_both_or_neither:
  "both_or_neither st \<Longrightarrow> both_or_neither (run_effects (snd (login_try b em pw)) st)"
proof (cases "\<exists>r s u fx. signInWithPassword b em pw = Inr r \<and> signin_error r = None
                \<and> data_session r = Some s \<and> fetchUserProfile b s = (Inr u, fx)")
  case True
  then obtain r s u fx where h: "signInWithPassword b em pw = Inr r" "signin_error r = None"
      "data_session r = Some s" "fetchUserProfile b s = (Inr u, fx)"
    by blast
  have nfx: "filter is_state_update fx = []"
    using fetchUserProfile_effects [of b s] h(4) by simp
  have "snd (login_try b em pw)
        = (CallSignIn em pw # fx) @ [SetCurrentUser (Some u), SetSession (Some s)]"
    using h by (simp add: login_try_def)
  moreover have "run_effects (CallSignIn em pw # fx) st = st"
    by (rule run_effects_no_update) (simp add: nfx)
  ultimately show ?thesis
    by (simp add: run_effects_append both_or_neither_def run_effects_Cons run_effects_Nil)
next
  case False
  assume inv: "both_or_neither st"
  have "filter is_state_update (snd (login_try b em pw)) = []"
    using False fetchUserProfile_effects [of b]
    by (auto simp: login_try_def split: sum.splits option.splits prod.splits)
       (metis snd_conv)+
  then show ?thesis
    using inv by (simp add: run_effects_no_update)
qed

lemma isAuthenticating_update_both_or_neither:
  "both_or_neither (st\<lparr>isAuthenticating := x\<rparr>) = both_or_neither st"
  by (simp add: both_or_neither_def)

lemma login_both_or_neither:
  assumes "both_or_neither st"
  shows "both_or_neither (run_effects (snd (login b em pw)) st)"
proof -
  have "both_or_neither (st\<lparr>isAuthenticating := True\<rparr>)"
    using assms by (simp add: isAuthenticating_update_both_or_neither)
  then have "both_or_neither
      (run_effects (snd (login_try b em pw)) (st\<lparr>isAuthenticating := True\<rparr>))"
    by (rule login_try_both_or_neither)
  then show ?thesis
    by (simp add: login_effects run_effects_Cons run_effects_append run_effects_Nil
        isAuthenticating_update_both_or_neither)
qed

lemma logout_no_update: "filter is_state_update (snd (logout b)) = []"
  by (simp add: logout_def split: sum.splits option.splits)

lemma step_both_or_neither: "both_or_neither st \<Longrightarrow> both_or_neither (step a st)"
proof (cases a)
  case (Login b em pw)
  assume "both_or_neither st"
  then show ?thesis
    by (simp add: Login step_def login_both_or_neither)
next
  case (Logout b)
  assume "both_or_neither st"
  then show ?thesis
    by (simp add: Logout step_def run_effects_no_update [OF logout_no_update])
next
  case (Notify event s')
  assume "both_or_neither st"
  then show ?thesis
    by (simp add: Notify step_def onAuthStateChange_def run_effects_def both_or_neither_def)
qed

lemma fold_step_both_or_neither:
  "both_or_neither st \<Longrightarrow> both_or_neither (fold step as st)"
  by (induction as arbitrary: st) (simp_all add: step_both_or_neither)

section \<open>Login\<close>

text \<open>
  C1. When the backend sign-in returns a session and no error, and the profile query
  returns a row and no error, \<open>login\<close> resolves to \<^verbatim>\<open>{error: null}\<close>; once its state
  updates are applied, \<open>currentUser\<close> has the role and full name of the fetched profile and
  the id and email of the session's user, and \<open>session\<close> is the session returned.
\<close>

theorem login_success:
  assumes "signInWithPassword b em pw = Inr r" and "signin_error r = None"
    and "data_session r = Some s"
    and "profiles_single b (auth_id (session_user s)) = Inr q"
    and "query_error q = None" and "data_profile q = Some p"
  shows "fst (login b em pw) = \<lparr>error = None\<rparr>
    \<and> currentUser (run_effects (snd (login b em pw)) st)
        = Some \<lparr>uid = auth_id (session_user s), email = auth_email (session_user s),
                 role = profile_role p, fullName = full_name p\<rparr>
    \<and> session (run_effects (snd (login b em pw)) st) = Some s"
proof -
  note t = login_try_success [OF assms]
  have res: "fst (login b em pw) = \<lparr>error = None\<rparr>"
    by (simp add: login_result t)
  have fx: "snd (login b em pw) =
      [SetIsAuthenticating True, CallSignIn em pw, CallProfileQuery (auth_id (session_user s)),
       SetCurrentUser (Some \<lparr>uid = auth_id (session_user s),
                              email = auth_email (session_user s),
                              role = profile_role p, fullName = full_name p\<rparr>),
       SetSession (Some s), SetIsAuthenticating False]"
    by (simp add: login_effects t)
  show ?thesis
    by (simp add: res fx run_effects_def)
qed

theorem login_success_witness:
  "signInWithPassword backend_ok ''alice@example.org'' ''pw''
     = Inr \<lparr>data_session = Some alice_session, signin_error = None\<rparr>
   \<and> profiles_single backend_ok ''u-1''
     = Inr \<lparr>data_profile = Some \<lparr>profile_role = ''admin'', full_name = ''Alice A''\<rparr>,
            query_error = None\<rparr>
   \<and> fst (login backend_ok ''alice@example.org'' ''pw'') = \<lparr>error = None\<rparr>
   \<and> currentUser (run_effects (snd (login backend_ok ''alice@example.org'' ''pw'')) initial_state)
     = Some \<lparr>uid = ''u-1'', email = Some ''alice@example.org'', role = ''admin'',
             fullName = ''Alice A''\<rparr>
   \<and> session (run_effects (snd (login backend_ok ''alice@example.org'' ''pw'')) initial_state)
     = Some alice_session"
  using login_success [of backend_ok "''alice@example.org''" "''pw''"
      "\<lparr>data_session = Some alice_session, signin_error = None\<rparr>" alice_session
      "\<lparr>data_profile = Some \<lparr>profile_role = ''admin'', full_name = ''Alice A''\<rparr>,
        query_error = None\<rparr>"
      "\<lparr>profile_role = ''admin'', full_name = ''Alice A''\<rparr>" initial_state]
  by (simp add: backend_ok_def alice_session_def)

text \<open>
  C2. The \<^verbatim>\<open>error\<close> member of the value \<open>login\<close> resolves to is \<^verbatim>\<open>null\<close>, or the message
  of the error the backend sign-in returned, or the fixed profile-failure message, or an
  unexpected-error message: the fixed message for a sign-in that returned neither an error
  nor a session, or the one derived from an exception thrown by the sign-in or by the
  compensating sign-out (its message, or the fixed network-error message when it has none).
\<close>

theorem login_error_taxonomy:
  "error (fst (login b em pw)) = None
   \<or> (\<exists>r m. signInWithPassword b em pw = Inr r \<and> signin_error r = Some m
         \<and> error (fst (login b em pw)) = Some m)
   \<or> error (fst (login b em pw)) = Some profile_failure_message
   \<or> error (fst (login b em pw)) = Some unknown_error_message
   \<or> (\<exists>e. (signInWithPassword b em pw = Inl e \<or> signOut b = Inl e)
         \<and> error (fst (login b em pw)) = Some (catch_message e))"
proof (cases "signInWithPassword b em pw")
  case (Inl e)
  then have "error (fst (login b em pw)) = Some (catch_message e)"
    by (simp add: login_result login_try_def)
  with Inl show ?thesis by blast
next
  case (Inr r)
  show ?thesis
  proof (cases "signin_error r")
    case (Some m)
    with Inr have "error (fst (login b em pw)) = Some m"
      by (simp add: login_result login_try_def)
    with Inr Some show ?thesis by blast
  next
    case None
    show ?thesis
    proof (cases "data_session r")
      case no_session: None
      with Inr None have "error (fst (login b em pw)) = Some unknown_error_message"
        by (simp add: login_result login_try_def)
      then show ?thesis by blast
    next
      case (Some s)
      obtain res fx where f: "fetchUserProfile b s = (res, fx)"
        by (cases "fetchUserProfile b s")
      show ?thesis
      proof (cases res)
        case (Inr u)
        with \<open>signInWithPassword b em pw = Inr r\<close> None Some f
        have "error (fst (login b em pw)) = None"
          by (simp add: login_result login_try_def)
        then show ?thesis by blast
      next
        case (Inl pe)
        show ?thesis
        proof (cases "signOut b")
          case thrown: (Inl e)
          with \<open>signInWithPassword b em pw = Inr r\<close> None Some f Inl
          have "error (fst (login b em pw)) = Some (catch_message e)"
            by (simp add: login_result login_try_def)
          with thrown show ?thesis by blast
        next
          case returned: (Inr x)
          with \<open>signInWithPassword b em pw = Inr r\<close> None Some f Inl
          have "error (fst (login b em pw)) = Some profile_failure_message"
            by (simp add: login_result login_try_def)
          then show ?thesis by blast
        qed
      qed
    qed
  qed
qed

text \<open>
  C3. After any sequence of calls of \<open>login\<close> and \<open>logout\<close>, against any behaviour of the
  backend, and of notifications of any kind, each with its state updates applied,
  \<open>currentUser\<close> is null exactly when \<open>session\<close> is null.
\<close>

theorem currentUser_session_together:
  "(currentUser (run_actions as) = None) = (session (run_actions as) = None)"
proof -
  have "both_or_neither initial_state"
    by (simp add: both_or_neither_def initial_state_def)
  then have "both_or_neither (run_actions as)"
    unfolding run_actions_def by (rule fold_step_both_or_neither)
  then show ?thesis
    by (simp add: both_or_neither_def)
qed

text \<open>
  C4, as stated, fails: when the sign-in succeeds, the profile query finds no row and the
  compensating sign-out throws, \<open>login\<close> resolves to the message of the thrown value, not to
  the fixed profile-failure message.
\<close>

theorem login_profile_failure_counterexample:
  "signInWithPassword backend_signout_throws ''alice@example.org'' ''pw''
     = Inr \<lparr>data_session = Some alice_session, signin_error = None\<rparr>
   \<and> profiles_single backend_signout_throws (auth_id (session_user alice_session))
     = Inr \<lparr>data_profile = None, query_error = Some ''No rows returned''\<rparr>
   \<and> fst (login backend_signout_throws ''alice@example.org'' ''pw'')
     = \<lparr>error = Some ''Failed to fetch''\<rparr>
   \<and> fst (login backend_signout_throws ''alice@example.org'' ''pw'')
     \<noteq> \<lparr>error = Some profile_failure_message\<rparr>"
  by (simp add: login_def login_try_def fetchUserProfile_def catch_message_def
      backend_signout_throws_def backend_no_profile_def backend_ok_def alice_session_def
      profile_failure_message_def)

text \<open>
  C4, amended. When the backend sign-in returns a session and no error and the profile
  lookup fails or returns no row, exactly one sign-out call is issued against the backend,
  and \<open>currentUser\<close> and \<open>session\<close> are not set: \<open>login\<close> calls neither setter, so from
  the logged-out state it was called in the provider is back in the logged-out state, both
  null and \<open>isAuthenticating\<close> false, and from any state both are null once the
  \<^verbatim>\<open>SIGNED_OUT\<close> notification of that sign-out is handled. Provided the sign-out call
  returns rather than throws, \<open>login\<close> resolves to the fixed profile-failure message.
\<close>

theorem login_profile_failure:
  assumes "signInWithPassword b em pw = Inr r" and "signin_error r = None"
    and "data_session r = Some s" and "profile_lookup_fails b s"
  shows "(\<forall>x. signOut b = Inr x \<longrightarrow>
            fst (login b em pw)
              = \<lparr>error = Some ''Login successful, but failed to retrieve user profile. Please contact support.''\<rparr>)
    \<and> count_list (snd (login b em pw)) CallSignOut = 1
    \<and> filter is_identity_update (snd (login b em pw)) = []
    \<and> (currentUser st = None \<and> session st = None \<longrightarrow>
          currentUser (run_effects (snd (login b em pw)) st) = None
          \<and> session (run_effects (snd (login b em pw)) st) = None)
    \<and> isAuthenticating (run_effects (snd (login b em pw)) st) = False
    \<and> currentUser (run_effects (onAuthStateChange ''SIGNED_OUT'' s')
          (run_effects (snd (login b em pw)) st)) = None
    \<and> session (run_effects (onAuthStateChange ''SIGNED_OUT'' s')
          (run_effects (snd (login b em pw)) st)) = None"
proof -
  note t = login_try_profile_failure [OF assms]
  have res: "\<forall>x. signOut b = Inr x \<longrightarrow>
      fst (login b em pw)
        = \<lparr>error = Some ''Login successful, but failed to retrieve user profile. Please contact support.''\<rparr>"
    by (simp add: login_result t profile_failure_message_def)
  have fx: "snd (login b em pw) =
      SetIsAuthenticating True # CallSignIn em pw # snd (fetchUserProfile b s)
        @ [CallSignOut, SetIsAuthenticating False]"
    by (simp add: login_effects t)
  have once: "count_list (snd (login b em pw)) CallSignOut = 1"
    by (simp add: fx fetchUserProfile_no_signOut)
  have frame: "filter is_identity_update (snd (login b em pw)) = []"
    by (simp add: fx fetchUserProfile_no_identity_update)
  have reset: "isAuthenticating (run_effects (snd (login b em pw)) st) = False"
    by (simp add: login_effects run_effects_Cons run_effects_append run_effects_Nil)
  have kept: "currentUser st = None \<and> session st = None \<longrightarrow>
      currentUser (run_effects (snd (login b em pw)) st) = None
      \<and> session (run_effects (snd (login b em pw)) st) = None"
    using run_effects_no_identity_update [OF frame, of st] by simp
  have cleared: "currentUser (run_effects (onAuthStateChange ''SIGNED_OUT'' s')
        (run_effects (snd (login b em pw)) st)) = None
      \<and> session (run_effects (onAuthStateChange ''SIGNED_OUT'' s')
        (run_effects (snd (login b em pw)) st)) = None"
    by (simp add: onAuthStateChange_def run_effects_Cons run_effects_Nil)
  from res once frame kept reset cleared show ?thesis
    by blast
qed

theorem login_profile_failure_witness:
  "signInWithPassword backend_no_profile ''alice@example.org'' ''pw''
     = Inr \<lparr>data_session = Some alice_session, signin_error = None\<rparr>
   \<and> profile_lookup_fails backend_no_profile alice_session
   \<and> signOut backend_no_profile = Inr \<lparr>signout_error = None\<rparr>
   \<and> currentUser initial_state = None \<and> session initial_state = None
   \<and> fst (login backend_no_profile ''alice@example.org'' ''pw'')
     = \<lparr>error = Some ''Login successful, but failed to retrieve user profile. Please contact support.''\<rparr>
   \<and> count_list (snd (login backend_no_profile ''alice@example.org'' ''pw'')) CallSignOut = 1
   \<and> currentUser (run_effects (snd (login backend_no_profile ''alice@example.org'' ''pw''))
        initial_state) = None
   \<and> session (run_effects (snd (login backend_no_profile ''alice@example.org'' ''pw''))
        initial_state) = None
   \<and> isAuthenticating (run_effects (snd (login backend_no_profile ''alice@example.org'' ''pw''))
        initial_state) = False"
proof -
  have ok: "signInWithPassword backend_no_profile ''alice@example.org'' ''pw''
      = Inr \<lparr>data_session = Some alice_session, signin_error = None\<rparr>"
    by (simp add: backend_no_profile_def backend_ok_def)
  have no_error: "signin_error \<lparr>data_session = Some alice_session, signin_error = None\<rparr> = None"
    by simp
  have sess: "data_session \<lparr>data_session = Some alice_session, signin_error = None\<rparr>
      = Some alice_session"
    by simp
  have fails: "profile_lookup_fails backend_no_profile alice_session"
    by (simp add: profile_lookup_fails_def backend_no_profile_def)
  have returns: "signOut backend_no_profile = Inr \<lparr>signout_error = None\<rparr>"
    by (simp add: backend_no_profile_def backend_ok_def)
  have out: "currentUser initial_state = None \<and> session initial_state = None"
    by (simp add: initial_state_def)
  from login_profile_failure [OF ok no_error sess fails, of initial_state None]
       ok fails returns out
  show ?thesis by simp
qed

text \<open>
  C5. When the backend sign-in returns an error, \<open>login\<close> resolves to that error's
  message; its only effects are the two updates of \<open>isAuthenticating\<close> around the sign-in
  call, so no profile query is issued, \<open>currentUser\<close> and \<open>session\<close> are as before the call
  and \<open>isAuthenticating\<close> is false afterwards.
\<close>

theorem login_credentials_rejected:
  assumes "signInWithPassword b em pw = Inr r" and "signin_error r = Some m"
  shows "fst (login b em pw) = \<lparr>error = Some m\<rparr>
    \<and> snd (login b em pw)
        = [SetIsAuthenticating True, CallSignIn em pw, SetIsAuthenticating False]
    \<and> filter is_profile_query (snd (login b em pw)) = []
    \<and> currentUser (run_effects (snd (login b em pw)) st) = currentUser st
    \<and> session (run_effects (snd (login b em pw)) st) = session st
    \<and> isAuthenticating (run_effects (snd (login b em pw)) st) = False"
proof -
  have t: "login_try b em pw = (Inr (Some m), [CallSignIn em pw])"
    using assms by (simp add: login_try_def)
  have res: "fst (login b em pw) = \<lparr>error = Some m\<rparr>"
    by (simp add: login_result t)
  have fx: "snd (login b em pw)
      = [SetIsAuthenticating True, CallSignIn em pw, SetIsAuthenticating False]"
    by (simp add: login_effects t)
  show ?thesis
    by (simp add: res fx run_effects_def)
qed

theorem login_credentials_rejected_witness:
  "signInWithPassword backend_rejecting ''alice@example.org'' ''wrong''
     = Inr \<lparr>data_session = None, signin_error = Some ''Invalid login credentials''\<rparr>
   \<and> fst (login backend_rejecting ''alice@example.org'' ''wrong'')
     = \<lparr>error = Some ''Invalid login credentials''\<rparr>
   \<and> filter is_profile_query (snd (login backend_rejecting ''alice@example.org'' ''wrong'')) = []
   \<and> currentUser (run_effects (snd (login backend_rejecting ''alice@example.org'' ''wrong''))
        initial_state) = None
   \<and> session (run_effects (snd (login backend_rejecting ''alice@example.org'' ''wrong''))
        initial_state) = None
   \<and> isAuthenticating (run_effects (snd (login backend_rejecting ''alice@example.org'' ''wrong''))
        initial_state) = False"
proof -
  have rejected: "signInWithPassword backend_rejecting ''alice@example.org'' ''wrong''
      = Inr \<lparr>data_session = None, signin_error = Some ''Invalid login credentials''\<rparr>"
    by (simp add: backend_rejecting_def)
  have msg: "signin_error \<lparr>data_session = None, signin_error = Some ''Invalid login credentials''\<rparr>
      = Some ''Invalid login credentials''"
    by simp
  from login_credentials_rejected [OF rejected msg, of initial_state] rejected
  show ?thesis
    by (simp add: initial_state_def run_effects_def)
qed

text \<open>
  C6. Whatever the backend does, the first effect of \<open>login\<close> is setting
  \<open>isAuthenticating\<close> to true, its last effect is setting it to false, nothing in between
  touches it, so it is set to false exactly once, and it is false once the updates are
  applied.
\<close>

theorem login_isAuthenticating_reset:
  "(\<exists>fx. snd (login b em pw) = SetIsAuthenticating True # fx @ [SetIsAuthenticating False]
         \<and> filter is_authenticating_update fx = [])
   \<and> count_list (snd (login b em pw)) (SetIsAuthenticating False) = 1
   \<and> isAuthenticating (run_effects (snd (login b em pw)) st) = False"
proof -
  let ?fx = "snd (login_try b em pw)"
  have none: "filter is_authenticating_update ?fx = []"
    by (rule login_try_no_authenticating_update)
  have shape: "snd (login b em pw)
      = SetIsAuthenticating True # ?fx @ [SetIsAuthenticating False]"
    by (rule login_effects)
  have "SetIsAuthenticating False \<notin> set ?fx"
  proof
    assume "SetIsAuthenticating False \<in> set ?fx"
    then have "SetIsAuthenticating False \<in> set (filter is_authenticating_update ?fx)"
      by simp
    with none show False by simp
  qed
  then have "count_list ?fx (SetIsAuthenticating False) = 0"
    by (simp add: count_list_0_iff)
  then have once: "count_list (snd (login b em pw)) (SetIsAuthenticating False) = 1"
    by (simp add: shape)
  have final: "isAuthenticating (run_effects (snd (login b em pw)) st) = False"
    by (simp add: shape run_effects_Cons run_effects_append run_effects_Nil)
  from shape none once final show ?thesis by blast
qed

text \<open>
  C10. When the sign-in succeeds, the profile lookup fails and the compensating sign-out
  throws, the outer handler catches the thrown value and \<open>login\<close> resolves to the message
  derived from it: its \<^verbatim>\<open>message\<close> when that is a non-empty string, and the fixed
  \<^verbatim>\<open>An unexpected network error occurred.\<close> otherwise. Unless the thrown value carries
  that very text, this is not the fixed profile-failure message. The last effect is still
  the reset of \<open>isAuthenticating\<close>, which is false afterwards.
\<close>

theorem login_signOut_throws:
  assumes "signInWithPassword b em pw = Inr r" and "signin_error r = None"
    and "data_session r = Some s" and "profile_lookup_fails b s"
    and "signOut b = Inl e"
  shows "fst (login b em pw)
        = \<lparr>error = Some (case message e of
                          Some m \<Rightarrow>
                            if m = [] then ''An unexpected network error occurred.'' else m
                        | None \<Rightarrow> ''An unexpected network error occurred.'')\<rparr>
    \<and> (message e
          \<noteq> Some ''Login successful, but failed to retrieve user profile. Please contact support.''
        \<longrightarrow> fst (login b em pw)
          \<noteq> \<lparr>error = Some ''Login successful, but failed to retrieve user profile. Please contact support.''\<rparr>)
    \<and> last (snd (login b em pw)) = SetIsAuthenticating False
    \<and> isAuthenticating (run_effects (snd (login b em pw)) st) = False"
proof -
  note t = login_try_profile_failure [OF assms(1-4)]
  have caught: "fst (login b em pw) = \<lparr>error = Some (catch_message e)\<rparr>"
    by (simp add: login_result t assms(5))
  have res: "fst (login b em pw)
        = \<lparr>error = Some (case message e of
                          Some m \<Rightarrow>
                            if m = [] then ''An unexpected network error occurred.'' else m
                        | None \<Rightarrow> ''An unexpected network error occurred.'')\<rparr>"
    by (simp add: caught catch_message_def network_error_message_def split: option.splits)
  have other: "message e
          \<noteq> Some ''Login successful, but failed to retrieve user profile. Please contact support.''
        \<longrightarrow> fst (login b em pw)
          \<noteq> \<lparr>error = Some ''Login successful, but failed to retrieve user profile. Please contact support.''\<rparr>"
    by (simp add: res split: option.splits)
  have fin: "last (snd (login b em pw)) = SetIsAuthenticating False"
    by (simp add: login_effects)
  have st: "isAuthenticating (run_effects (snd (login b em pw)) st) = False"
    by (simp add: login_effects run_effects_Cons run_effects_append run_effects_Nil)
  from res other fin st show ?thesis by blast
qed

theorem login_signOut_throws_witness:
  "signInWithPassword backend_signout_throws ''alice@example.org'' ''pw''
     = Inr \<lparr>data_session = Some alice_session, signin_error = None\<rparr>
   \<and> profile_lookup_fails backend_signout_throws alice_session
   \<and> signOut backend_signout_throws = Inl (Thrown (Some ''Failed to fetch''))
   \<and> fst (login backend_signout_throws ''alice@example.org'' ''pw'')
       = \<lparr>error = Some ''Failed to fetch''\<rparr>
   \<and> isAuthenticating (run_effects (snd (login backend_signout_throws ''alice@example.org'' ''pw''))
        initial_state) = False
   \<and> signInWithPassword backend_signout_throws_silent ''alice@example.org'' ''pw''
     = Inr \<lparr>data_session = Some alice_session, signin_error = None\<rparr>
   \<and> profile_lookup_fails backend_signout_throws_silent alice_session
   \<and> signOut backend_signout_throws_silent = Inl (Thrown None)
   \<and> fst (login backend_signout_throws_silent ''alice@example.org'' ''pw'')
       = \<lparr>error = Some ''An unexpected network error occurred.''\<rparr>"
proof -
  have no_error: "signin_error \<lparr>data_session = Some alice_session, signin_error = None\<rparr> = None"
    by simp
  have sess: "data_session \<lparr>data_session = Some alice_session, signin_error = None\<rparr>
      = Some alice_session"
    by simp
  have ok: "signInWithPassword backend_signout_throws ''alice@example.org'' ''pw''
      = Inr \<lparr>data_session = Some alice_session, signin_error = None\<rparr>"
    by (simp add: backend_signout_throws_def backend_no_profile_def backend_ok_def)
  have fails: "profile_lookup_fails backend_signout_throws alice_session"
    by (simp add: profile_lookup_fails_def backend_signout_throws_def backend_no_profile_def)
  have throws: "signOut backend_signout_throws = Inl (Thrown (Some ''Failed to fetch''))"
    by (simp add: backend_signout_throws_def)
  have ok': "signInWithPassword backend_signout_throws_silent ''alice@example.org'' ''pw''
      = Inr \<lparr>data_session = Some alice_session, signin_error = None\<rparr>"
    by (simp add: backend_signout_throws_silent_def backend_no_profile_def backend_ok_def)
  have fails': "profile_lookup_fails backend_signout_throws_silent alice_session"
    by (simp add: profile_lookup_fails_def backend_signout_throws_silent_def
        backend_no_profile_def)
  have throws': "signOut backend_signout_throws_silent = Inl (Thrown None)"
    by (simp add: backend_signout_throws_silent_def)
  from login_signOut_throws [OF ok no_error sess fails throws, of initial_state]
       login_signOut_throws [OF ok' no_error sess fails' throws', of initial_state]
       ok fails throws ok' fails' throws'
  show ?thesis by simp
qed

section \<open>The notification handler\<close>

text \<open>
  C7. On a \<^verbatim>\<open>SIGNED_OUT\<close> notification the handler sets \<open>currentUser\<close> and \<open>session\<close> to
  null; on a notification of any other kind it does nothing, and the state is unchanged.
\<close>

theorem onAuthStateChange_signed_out_only:
  "currentUser (run_effects (onAuthStateChange ''SIGNED_OUT'' s') st) = None
   \<and> session (run_effects (onAuthStateChange ''SIGNED_OUT'' s') st) = None
   \<and> (event \<noteq> ''SIGNED_OUT'' \<longrightarrow>
        onAuthStateChange event s' = []
        \<and> run_effects (onAuthStateChange event s') st = st)"
  by (simp add: onAuthStateChange_def run_effects_def)

theorem onAuthStateChange_signed_out_only_witness:
  "''TOKEN_REFRESHED'' \<noteq> ''SIGNED_OUT''
   \<and> run_effects (onAuthStateChange ''TOKEN_REFRESHED'' (Some alice_session)) alice_logged_in
       = alice_logged_in
   \<and> currentUser (run_effects (onAuthStateChange ''SIGNED_OUT'' None) alice_logged_in) = None
   \<and> session (run_effects (onAuthStateChange ''SIGNED_OUT'' None) alice_logged_in) = None"
proof -
  have other: "''TOKEN_REFRESHED'' \<noteq> ''SIGNED_OUT''"
    by simp
  from onAuthStateChange_signed_out_only
         [of "Some alice_session" alice_logged_in "''TOKEN_REFRESHED''"]
       onAuthStateChange_signed_out_only [of None alice_logged_in "''TOKEN_REFRESHED''"]
       other
  show ?thesis by (simp add: run_effects_def)
qed

section \<open>Logout\<close>

text \<open>
  C8, as stated, fails: \<open>logout\<close> awaits the sign-out outside any handler, so when the
  sign-out throws, \<open>logout\<close> rejects with the thrown value.
\<close>

theorem logout_rejects_counterexample:
  "signOut backend_signout_throws = Inl (Thrown (Some ''Failed to fetch''))
   \<and> fst (logout backend_signout_throws) = Inl (Thrown (Some ''Failed to fetch''))
   \<and> fst (logout backend_signout_throws) \<noteq> Inr ()"
  by (simp add: logout_def backend_signout_throws_def)

text \<open>
  C8, amended. \<open>logout\<close> calls no state setter, so the four state variables are unchanged
  by it; whenever the backend sign-out call returns, with or without an error, \<open>logout\<close>
  resolves, and a returned error is only logged.
\<close>

theorem logout_frame:
  "filter is_state_update (snd (logout b)) = []
   \<and> run_effects (snd (logout b)) st = st
   \<and> (\<forall>r. signOut b = Inr r \<longrightarrow>
         fst (logout b) = Inr ()
         \<and> (\<forall>m. signout_error r = Some m \<longrightarrow>
               snd (logout b) = [CallSignOut, ConsoleError ''Error logging out:'' m]))"
proof -
  have "\<forall>r. signOut b = Inr r \<longrightarrow>
         fst (logout b) = Inr ()
         \<and> (\<forall>m. signout_error r = Some m \<longrightarrow>
               snd (logout b) = [CallSignOut, ConsoleError ''Error logging out:'' m])"
    by (simp add: logout_def split: option.splits)
  with logout_no_update [of b] run_effects_no_update [OF logout_no_update, of b st]
  show ?thesis by blast
qed

theorem logout_frame_witness:
  "signOut backend_signout_error = Inr \<lparr>signout_error = Some ''Session not found''\<rparr>
   \<and> fst (logout backend_signout_error) = Inr ()
   \<and> snd (logout backend_signout_error)
       = [CallSignOut, ConsoleError ''Error logging out:'' ''Session not found'']
   \<and> run_effects (snd (logout backend_signout_error)) alice_logged_in = alice_logged_in"
proof -
  have returned: "signOut backend_signout_error
      = Inr \<lparr>signout_error = Some ''Session not found''\<rparr>"
    by (simp add: backend_signout_error_def)
  from logout_frame [of backend_signout_error alice_logged_in] returned
  show ?thesis by (simp add: run_effects_def)
qed

section \<open>The context hook\<close>

text \<open>
  C9. When the value read from the context is undefined, \<open>useRequests\<close> throws an error
  whose message names the missing provider, \<^verbatim>\<open>RequestProvider\<close>; otherwise it returns the
  value it read.
\<close>

theorem useRequests_contract:
  "(\<exists>pre post. useRequests (None :: 'c option)
       = Inl (Thrown (Some (pre @ ''RequestProvider'' @ post))))
   \<and> useRequests (None :: 'c option)
       = Inl (Thrown (Some ''useRequests must be used within a RequestProvider''))
   \<and> useRequests (Some (c :: 'c)) = Inr c"
proof -
  have "''useRequests must be used within a RequestProvider''
        = ''useRequests must be used within a '' @ ''RequestProvider'' @ []"
    by simp
  then have "\<exists>pre post. ''useRequests must be used within a RequestProvider''
        = pre @ ''RequestProvider'' @ post"
    by blast
  then show ?thesis
    by (simp add: useRequests_def)
qed

end
